theory Spec2Isabelle
  imports Main "HOL-Library.Word"
begin

unbundle bit_operations_syntax

section \<open>OPAL PNOR flash MTD driver (drivers/mtd/devices/powernv\_flash.c)\<close>

text \<open>
  A shallow embedding of the driver. C \<open>int\<close> is a 32-bit word read in two's complement
  (\<open><s\<close> is the signed order), \<open>size_t\<close>, \<open>loff_t\<close> and \<open>uint64_t\<close> are 64-bit words.
  Pointers to \<open>size_t\<close> and to \<open>struct erase_info\<close> objects are addresses into a store;
  a pointer that may be \<open>NULL\<close> is an \<open>option\<close>. Calls that leave the driver (firmware
  calls, the token pool, the MTD core) append an event to a trace, and what they return is
  taken from an environment record, so that every behaviour of the surroundings is an input.
  An erase request is shared with the caller and the MTD core while the call runs, so every
  assignment to one of its fields is an event as well, carrying the request as it is after
  the assignment: the trace shows in which order the driver writes and calls.
\<close>

subsection \<open>Types\<close>

type_synonym s32 = "32 word"
type_synonym u32 = "32 word"
type_synonym u64 = "64 word"
type_synonym u8 = "8 word"

text \<open>\<open>enum flash_op\<close>, lines 51-55.\<close>

datatype flash_op = FLASH_OP_READ | FLASH_OP_WRITE | FLASH_OP_ERASE

text \<open>
  Constants of headers that are not part of the two source files (errno values, OPAL return
  codes, MTD type and capability flags). The driver is parametric in them.
\<close>

record kconsts =
  ENOMEM :: s32
  EIO :: s32
  OPAL_SUCCESS :: s32
  OPAL_ASYNC_COMPLETION :: s32
  MTD_NANDFLASH :: u8
  MTD_CAP_NANDFLASH :: u32

text \<open>
  \<open>struct opal_msg\<close>: only the \<open>params\<close> array is read. A \<open>__be64\<close> is the eight bytes
  as they lie in memory, most significant first; \<open>be64_to_cpu\<close> gives the number they denote.
\<close>

type_synonym be64 = "u8 list"

record opal_msg =
  params :: "nat \<Rightarrow> be64"

definition be64_to_cpu :: "be64 \<Rightarrow> u64" where
  "be64_to_cpu bs = foldl (\<lambda>r b. push_bit 8 r OR ucast b) 0 bs"

text \<open>
  Modelled from the spec: the request states \<open>PENDING\<close>, \<open>ERASING\<close>, \<open>DONE\<close> and
  \<open>FAILED\<close>, as distinct values. The macros
  \<open>MTD_ERASE_PENDING\<close>, \<open>MTD_ERASING\<close>, \<open>MTD_ERASE_DONE\<close> and \<open>MTD_ERASE_FAILED\<close>
  are defined in the header linux/mtd/mtd.h, which is not among the source files.
\<close>

datatype erase_state = MTD_ERASE_PENDING | MTD_ERASING | MTD_ERASE_DONE | MTD_ERASE_FAILED

text \<open>
  The erase request, \<open>struct erase_info\<close> of the MTD core: the fields the driver reads
  and writes (lines 155-165).
\<close>

record erase_info =
  ei_addr :: u64
  ei_len :: u64
  ei_fail_addr :: u64
  ei_state :: erase_state

text \<open>
  The fields of \<open>struct mtd_info\<close> that the driver fills in (lines 198-207), and
  \<open>struct powernv_flash\<close> (lines 46-49). \<open>mtd->priv\<close> points back at the enclosing
  \<open>struct powernv_flash\<close> (line 231), so the operations take that structure.
\<close>

datatype mtd_handler = Powernv_flash_erase | Powernv_flash_read | Powernv_flash_write

record mtd_info =
  mtd_name :: "u8 list option"
  mtd_type :: u8
  mtd_flags :: u32
  mtd_size :: u64
  mtd_erasesize :: u32
  mtd_writesize :: u32
  mtd_writebufsize :: u32
  mtd_erase :: "mtd_handler option"
  mtd_read :: "mtd_handler option"
  mtd_write :: "mtd_handler option"

record powernv_flash =
  mtd :: mtd_info
  flash_id :: u64

subsection \<open>Events, state and environment\<close>

datatype event =
    Dev_dbg
  | Dev_err
  | Opal_async_get_token_interruptible s32
  | Opal_flash_read u64 u64 u64 u64 s32
  | Opal_flash_write u64 u64 u64 u64 s32
  | Opal_flash_erase u64 u64 u64 s32
  | Opal_async_wait_response s32
  | Opal_async_release_token s32
  | Erase_info_write nat erase_info
  | Mtd_erase_callback nat erase_info
  | Mtd_device_parse_register powernv_flash

record kstate =
  size_mem :: "nat \<Rightarrow> u64"
  erase_mem :: "nat \<Rightarrow> erase_info"
  trace :: "event list"

definition emit :: "event \<Rightarrow> kstate \<Rightarrow> kstate" where
  "emit e s = s\<lparr>trace := trace s @ [e]\<rparr>"

text \<open>An assignment to a field of the erase request at address \<open>erase\<close>.\<close>

definition write_erase_info :: "nat \<Rightarrow> erase_info \<Rightarrow> kstate \<Rightarrow> kstate" where
  "write_erase_info erase e s =
     emit (Erase_info_write erase e) (s\<lparr>erase_mem := (erase_mem s)(erase := e)\<rparr>)"

text \<open>
  What the surroundings answer during one call: the token pool, the three firmware calls
  (the value each leaves in \<open>int rc\<close>), the completion wait with the message it fills in,
  and the address translation \<open>__pa\<close>.
\<close>

record firmware =
  opal_async_get_token_interruptible :: s32
  opal_flash_read :: "u64 \<Rightarrow> u64 \<Rightarrow> u64 \<Rightarrow> u64 \<Rightarrow> s32 \<Rightarrow> s32"
  opal_flash_write :: "u64 \<Rightarrow> u64 \<Rightarrow> u64 \<Rightarrow> u64 \<Rightarrow> s32 \<Rightarrow> s32"
  opal_flash_erase :: "u64 \<Rightarrow> u64 \<Rightarrow> u64 \<Rightarrow> s32 \<Rightarrow> s32"
  opal_async_wait_response :: "s32 \<Rightarrow> s32 \<times> opal_msg"
  pa :: "u64 \<Rightarrow> u64"

subsection \<open>The asynchronous operation bridge, lines 57-112\<close>

text \<open>
  The three cases of the \<open>switch\<close> (lines 75-87): the value the firmware call leaves in
  \<open>rc\<close>, and the call itself as an event. \<open>flash_op\<close> has exactly the three
  enumerators, so the \<open>default: BUG_ON(1)\<close> branch has no counterpart. Only read and
  write pass \<open>__pa(buf)\<close>; the erase call has no buffer argument.
\<close>

definition dispatch ::
  "firmware \<Rightarrow> powernv_flash \<Rightarrow> flash_op \<Rightarrow> u64 \<Rightarrow> u64 \<Rightarrow> u64 \<Rightarrow> s32 \<Rightarrow> s32 \<times> event" where
  "dispatch fw info op offset len buf token =
     (case op of
        FLASH_OP_READ \<Rightarrow>
          (opal_flash_read fw (flash_id info) offset (pa fw buf) len token,
           Opal_flash_read (flash_id info) offset (pa fw buf) len token)
      | FLASH_OP_WRITE \<Rightarrow>
          (opal_flash_write fw (flash_id info) offset (pa fw buf) len token,
           Opal_flash_write (flash_id info) offset (pa fw buf) len token)
      | FLASH_OP_ERASE \<Rightarrow>
          (opal_flash_erase fw (flash_id info) offset len token,
           Opal_flash_erase (flash_id info) offset len token))"

text \<open>\<open>if (retlen) *retlen = len;\<close>, lines 105-106.\<close>

definition store_retlen :: "nat option \<Rightarrow> u64 \<Rightarrow> kstate \<Rightarrow> kstate" where
  "store_retlen retlen len s =
     (case retlen of
        None \<Rightarrow> s
      | Some p \<Rightarrow> s\<lparr>size_mem := (size_mem s)(p := len)\<rparr>)"

text \<open>
  The function body in the order of the source. Line 102 narrows the 64-bit status to
  \<open>int\<close>. Lines 104 and 108 assign \<open>rc\<close>, and line 111 returns the literal 0.
\<close>

definition powernv_flash_async_op ::
  "kconsts \<Rightarrow> firmware \<Rightarrow> powernv_flash \<Rightarrow> flash_op \<Rightarrow> u64 \<Rightarrow> u64 \<Rightarrow> nat option \<Rightarrow> u64 \<Rightarrow>
   kstate \<Rightarrow> s32 \<times> kstate" where
  "powernv_flash_async_op k fw info op offset len retlen buf s0 =
     (let s1 = emit Dev_dbg s0;
          token = opal_async_get_token_interruptible fw;
          s2 = emit (Opal_async_get_token_interruptible token) s1
      in if token <s 0 then (- ENOMEM k, emit Dev_err s2)
         else
           let (rc, call) = dispatch fw info op offset len buf token;
               s3 = emit call s2
           in if rc \<noteq> OPAL_ASYNC_COMPLETION k then (- EIO k, emit Dev_err s3)
              else
                let (rc, msg) = opal_async_wait_response fw token;
                    s4 = emit (Opal_async_wait_response token) s3;
                    s5 = emit (Opal_async_release_token token) s4
                in if rc \<noteq> 0 then (- EIO k, emit Dev_err s5)
                   else
                     let rc = (ucast (be64_to_cpu (params msg 1)) :: s32)
                     in if rc = OPAL_SUCCESS k
                        then (let rc = (0 :: s32) in (0, store_retlen retlen len s5))
                        else (let rc = - EIO k in (0, s5)))"

text \<open>Lines 123-128 and 139-144: read and write hand the bridge's result on.\<close>

definition powernv_flash_read ::
  "kconsts \<Rightarrow> firmware \<Rightarrow> powernv_flash \<Rightarrow> u64 \<Rightarrow> u64 \<Rightarrow> nat option \<Rightarrow> u64 \<Rightarrow> kstate \<Rightarrow> s32 \<times> kstate" where
  "powernv_flash_read k fw info from len retlen buf s =
     powernv_flash_async_op k fw info FLASH_OP_READ from len retlen buf s"

definition powernv_flash_write ::
  "kconsts \<Rightarrow> firmware \<Rightarrow> powernv_flash \<Rightarrow> u64 \<Rightarrow> u64 \<Rightarrow> nat option \<Rightarrow> u64 \<Rightarrow> kstate \<Rightarrow> s32 \<times> kstate" where
  "powernv_flash_write k fw info to len retlen buf s =
     powernv_flash_async_op k fw info FLASH_OP_WRITE to len retlen buf s"

subsection \<open>Erase, lines 151-169\<close>

text \<open>Line 155: \<open>erase->state = MTD_ERASING\<close>.\<close>

definition erase_begin :: "nat \<Rightarrow> kstate \<Rightarrow> kstate" where
  "erase_begin erase s =
     write_erase_info erase ((erase_mem s erase)\<lparr>ei_state := MTD_ERASING\<rparr>) s"

text \<open>
  Lines 161-168: the request is marked from the bridge's result (lines 162 and 163 are two
  assignments, line 165 is one), the MTD core is notified (the event carries the request as
  the callback sees it), and 0 is returned.
\<close>

definition erase_finish :: "nat \<Rightarrow> s32 \<Rightarrow> kstate \<Rightarrow> s32 \<times> kstate" where
  "erase_finish erase rc s =
     (let s' = (if rc \<noteq> 0
                then
                  let s1 = write_erase_info erase
                             ((erase_mem s erase)\<lparr>ei_fail_addr := ei_addr (erase_mem s erase)\<rparr>) s
                  in write_erase_info erase
                       ((erase_mem s1 erase)\<lparr>ei_state := MTD_ERASE_FAILED\<rparr>) s1
                else write_erase_info erase
                       ((erase_mem s erase)\<lparr>ei_state := MTD_ERASE_DONE\<rparr>) s)
      in (0, emit (Mtd_erase_callback erase (erase_mem s' erase)) s'))"

definition powernv_flash_erase ::
  "kconsts \<Rightarrow> firmware \<Rightarrow> powernv_flash \<Rightarrow> nat \<Rightarrow> kstate \<Rightarrow> s32 \<times> kstate" where
  "powernv_flash_erase k fw info erase s0 =
     (let s1 = erase_begin erase s0;
          (rc, s2) = powernv_flash_async_op k fw info FLASH_OP_ERASE
                       (ei_addr (erase_mem s1 erase)) (ei_len (erase_mem s1 erase)) None 0 s1
      in erase_finish erase rc s2)"

subsection \<open>Probe, lines 176-256\<close>

text \<open>
  The device-tree node is its property list. A property value is a byte string of a given
  length; the record also holds the bytes that lie behind the value in memory, because
  \<open>of_read_number\<close> has no length check and reads on when the value is shorter than the
  cells it is asked for. \<open>of_get_property\<close> and \<open>of_read_number\<close> belong to the
  kernel's device-tree library (drivers/of/base.c, include/linux/of.h), not to the source
  files, and are modelled after their C definitions: \<open>of_get_property\<close> returns a pointer
  to the value of the first property of that name, or \<open>NULL\<close>, and writes the value's
  length to \<open>*lenp\<close> only when it found one; \<open>of_read_number\<close> reads the given number
  of big-endian 32-bit cells through the pointer it is given, advancing it by one cell each
  time. Reading through \<open>NULL\<close> is a fault.
\<close>

record property =
  prop_value :: "u8 list"
  prop_after :: "nat \<Rightarrow> u8"

type_synonym device_node = "(string \<times> property) list"

datatype fault = Null_dereference

definition of_get_property :: "device_node \<Rightarrow> string \<Rightarrow> property option" where
  "of_get_property node name = map_of node name"

text \<open>The byte at offset \<open>i\<close> from the start of the value.\<close>

definition byte_at :: "property \<Rightarrow> nat \<Rightarrow> u8" where
  "byte_at p i =
     (if i < length (prop_value p) then prop_value p ! i
      else prop_after p (i - length (prop_value p)))"

definition be32_to_cpu :: "u8 list \<Rightarrow> u32" where
  "be32_to_cpu bs = foldl (\<lambda>r b. push_bit 8 r OR ucast b) 0 bs"

text \<open>
  The loop \<open>while (size--) r = (r << 32) | be32_to_cpu(*(cell++))\<close>, with \<open>i\<close> the
  offset of \<open>cell\<close> from the start of the value.
\<close>

fun read_cells :: "property \<Rightarrow> nat \<Rightarrow> nat \<Rightarrow> u64 \<Rightarrow> u64" where
  "read_cells p i 0 r = r"
| "read_cells p i (Suc n) r =
     read_cells p (i + 4) n
       (push_bit 32 r OR
        ucast (be32_to_cpu [byte_at p i, byte_at p (i + 1), byte_at p (i + 2), byte_at p (i + 3)]))"

definition of_read_number :: "property option \<Rightarrow> nat \<Rightarrow> fault + u64" where
  "of_read_number cell n =
     (case cell of
        None \<Rightarrow> (if n = 0 then Inr 0 else Inl Null_dereference)
      | Some p \<Rightarrow> Inr (read_cells p 0 n 0))"

text \<open>
  What the kernel answers during probe: whether \<open>devm_kzalloc\<close> returns memory, what
  \<open>mtd_device_parse_register\<close> returns, and the value the local \<open>int count\<close> (line 180,
  declared without an initialiser) holds when \<open>of_get_property\<close> has not written it.
\<close>

record kernel =
  devm_kzalloc :: bool
  mtd_device_parse_register :: "powernv_flash \<Rightarrow> s32"
  count_uninitialised :: s32

text \<open>
  Lines 176-210. \<open>count / sizeof(__be32)\<close> is computed in \<open>unsigned long\<close>, so \<open>count\<close>
  is sign-extended to 64 bits first. \<open>mtd->erasesize\<close> is a 32-bit field.
\<close>

definition powernv_flash_set_driver_info ::
  "kconsts \<Rightarrow> kernel \<Rightarrow> device_node \<Rightarrow> mtd_info \<Rightarrow> kstate \<Rightarrow> fault + (s32 \<times> mtd_info \<times> kstate)" where
  "powernv_flash_set_driver_info k kn node m s =
     (case of_get_property node ''ibm,flash-block-size'' of
        None \<Rightarrow> Inr (1, m, emit Dev_err s)
      | Some erase_size \<Rightarrow>
          let reg = of_get_property node ''reg'';
              count = (case reg of
                         None \<Rightarrow> count_uninitialised kn
                       | Some v \<Rightarrow> (of_nat (length (prop_value v)) :: s32))
          in if (scast count :: u64) div 4 \<noteq> 2 then Inr (1, m, emit Dev_err s)
             else
               (case of_read_number reg 2 of
                  Inl f \<Rightarrow> Inl f
                | Inr sz \<Rightarrow>
                    (case of_read_number (Some erase_size) 1 of
                       Inl f \<Rightarrow> Inl f
                     | Inr es \<Rightarrow>
                         Inr (0,
                              m\<lparr>mtd_name := map_option prop_value (of_get_property node ''name''),
                                mtd_type := MTD_NANDFLASH k,
                                mtd_flags := MTD_CAP_NANDFLASH k,
                                mtd_size := sz,
                                mtd_erasesize := ucast es,
                                mtd_writesize := 1,
                                mtd_writebufsize := 1,
                                mtd_erase := Some Powernv_flash_erase,
                                mtd_read := Some Powernv_flash_read,
                                mtd_write := Some Powernv_flash_write\<rparr>,
                              s))))"

text \<open>The zeroed structure \<open>devm_kzalloc\<close> returns (line 226).\<close>

definition kzalloc_powernv_flash :: powernv_flash where
  "kzalloc_powernv_flash =
     \<lparr>mtd = \<lparr>mtd_name = None, mtd_type = 0, mtd_flags = 0, mtd_size = 0, mtd_erasesize = 0,
             mtd_writesize = 0, mtd_writebufsize = 0,
             mtd_erase = None, mtd_read = None, mtd_write = None\<rparr>,
      flash_id = 0\<rparr>"

text \<open>Lines 218-256. Every \<open>goto out\<close> returns the current \<open>ret\<close>.\<close>

definition powernv_flash_probe ::
  "kconsts \<Rightarrow> kernel \<Rightarrow> device_node \<Rightarrow> kstate \<Rightarrow> fault + (s32 \<times> kstate)" where
  "powernv_flash_probe k kn node s =
     (let ret = - ENOMEM k
      in if \<not> devm_kzalloc kn then Inr (ret, emit Dev_err s)
         else
           let data = kzalloc_powernv_flash;
               ret = - EIO k
           in (case of_get_property node ''ibm,opal-id'' of
                 None \<Rightarrow> Inr (ret, emit Dev_err s)
               | Some prop \<Rightarrow>
                   (case of_read_number (Some prop) 1 of
                      Inl f \<Rightarrow> Inl f
                    | Inr v \<Rightarrow>
                        let data = data\<lparr>flash_id := v\<rparr>
                        in (case powernv_flash_set_driver_info k kn node (mtd data) s of
                              Inl f \<Rightarrow> Inl f
                            | Inr (r, m, s1) \<Rightarrow>
                                let data = data\<lparr>mtd := m\<rparr>
                                in if r \<noteq> 0 then Inr (ret, s1)
                                   else
                                     let ret = mtd_device_parse_register kn data
                                     in Inr (ret, emit (Mtd_device_parse_register data) s1)))))"

subsection \<open>Observations on traces\<close>

definition releases :: "s32 \<Rightarrow> kstate \<Rightarrow> nat" where
  "releases token s = length (filter (\<lambda>e. e = Opal_async_release_token token) (trace s))"

definition acquisitions :: "s32 \<Rightarrow> kstate \<Rightarrow> nat" where
  "acquisitions token s =
     length (filter (\<lambda>e. e = Opal_async_get_token_interruptible token) (trace s))"

fun is_erase_callback :: "nat \<Rightarrow> event \<Rightarrow> bool" where
  "is_erase_callback p (Mtd_erase_callback q e) = (p = q)"
| "is_erase_callback p _ = False"

text \<open>The events of \<open>s'\<close> behind those of \<open>s\<close>.\<close>

definition new_events :: "kstate \<Rightarrow> kstate \<Rightarrow> event list" where
  "new_events s s' = drop (length (trace s)) (trace s')"

definition erase_callbacks :: "nat \<Rightarrow> kstate \<Rightarrow> nat" where
  "erase_callbacks erase s = length (filter (is_erase_callback erase) (trace s))"

fun is_register :: "event \<Rightarrow> bool" where
  "is_register (Mtd_device_parse_register d) = True"
| "is_register _ = False"

definition registered :: "kstate \<Rightarrow> bool" where
  "registered s = list_ex is_register (trace s)"

subsection \<open>The path conditions of the bridge\<close>

definition token_acquired :: "firmware \<Rightarrow> bool" where
  "token_acquired fw = (\<not> opal_async_get_token_interruptible fw <s 0)"

definition dispatch_accepted ::
  "kconsts \<Rightarrow> firmware \<Rightarrow> powernv_flash \<Rightarrow> flash_op \<Rightarrow> u64 \<Rightarrow> u64 \<Rightarrow> u64 \<Rightarrow> bool" where
  "dispatch_accepted k fw info op offset len buf =
     (fst (dispatch fw info op offset len buf (opal_async_get_token_interruptible fw))
        = OPAL_ASYNC_COMPLETION k)"

definition wait_succeeded :: "firmware \<Rightarrow> bool" where
  "wait_succeeded fw =
     (fst (opal_async_wait_response fw (opal_async_get_token_interruptible fw)) = 0)"

text \<open>Line 102: the completion status as decoded into \<open>int rc\<close>.\<close>

definition completion_status :: "firmware \<Rightarrow> s32" where
  "completion_status fw =
     ucast (be64_to_cpu
       (params (snd (opal_async_wait_response fw (opal_async_get_token_interruptible fw))) 1))"

text \<open>The branch of lines 103-106 is reached exactly under these four conditions.\<close>

definition reaches_success_branch ::
  "kconsts \<Rightarrow> firmware \<Rightarrow> powernv_flash \<Rightarrow> flash_op \<Rightarrow> u64 \<Rightarrow> u64 \<Rightarrow> u64 \<Rightarrow> bool" where
  "reaches_success_branch k fw info op offset len buf =
     (token_acquired fw \<and> dispatch_accepted k fw info op offset len buf \<and>
      wait_succeeded fw \<and> completion_status fw = OPAL_SUCCESS k)"

subsection \<open>A concrete platform\<close>

text \<open>
  The values the constants have in the kernel tree: \<open>ENOMEM\<close> 12, \<open>EIO\<close> 5,
  \<open>OPAL_SUCCESS\<close> 0, \<open>OPAL_ASYNC_COMPLETION\<close> -15, \<open>MTD_NANDFLASH\<close> 4,
  \<open>MTD_CAP_NANDFLASH\<close> 0x400.
\<close>

definition linux_consts :: kconsts where
  "linux_consts =
     \<lparr>ENOMEM = 12, EIO = 5, OPAL_SUCCESS = 0, OPAL_ASYNC_COMPLETION = - 15,
      MTD_NANDFLASH = 4, MTD_CAP_NANDFLASH = 0x400\<rparr>"

text \<open>
  A firmware that answers every call of one invocation with fixed values: the token, the
  return code of the three flash calls, the return code of the wait, and the bytes of
  \<open>params[1]\<close> of the message.
\<close>

definition fixed_firmware :: "s32 \<Rightarrow> s32 \<Rightarrow> s32 \<Rightarrow> be64 \<Rightarrow> firmware" where
  "fixed_firmware token rc wait status =
     \<lparr>opal_async_get_token_interruptible = token,
      opal_flash_read = (\<lambda>_ _ _ _ _. rc),
      opal_flash_write = (\<lambda>_ _ _ _ _. rc),
      opal_flash_erase = (\<lambda>_ _ _ _. rc),
      opal_async_wait_response = (\<lambda>_. (wait, \<lparr>params = (\<lambda>i. if i = 1 then status else [])\<rparr>)),
      pa = (\<lambda>a. a)\<rparr>"

definition chip :: powernv_flash where
  "chip = kzalloc_powernv_flash\<lparr>flash_id := 1\<rparr>"

definition boot_state :: kstate where
  "boot_state =
     \<lparr>size_mem = (\<lambda>_. 0),
      erase_mem = (\<lambda>_. \<lparr>ei_addr = 0x4000, ei_len = 0x1000, ei_fail_addr = 0,
                        ei_state = MTD_ERASE_PENDING\<rparr>),
      trace = []\<rparr>"

text \<open>The bytes of the 64-bit statuses 0 (\<open>OPAL_SUCCESS\<close>) and -6 (\<open>OPAL_HARDWARE\<close>).\<close>

definition status_success :: be64 where
  "status_success = [0, 0, 0, 0, 0, 0, 0, 0]"

definition status_hardware :: be64 where
  "status_hardware = [0xFF, 0xFF, 0xFF, 0xFF, 0xFF, 0xFF, 0xFF, 0xFA]"

text \<open>
  Device-tree nodes and kernel answers for probe: a node with the device identifier and the
  erase-block size but no \<open>reg\<close>, the same node with a two-cell \<open>reg\<close>, and a kernel that
  grants memory, accepts the registration, and whose stack slot for \<open>count\<close> holds \<open>c\<close>.
\<close>

definition node_without_reg :: device_node where
  "node_without_reg =
     [(''ibm,opal-id'', \<lparr>prop_value = [0, 0, 0, 1], prop_after = (\<lambda>_. 0)\<rparr>),
      (''ibm,flash-block-size'', \<lparr>prop_value = [0, 1, 0, 0], prop_after = (\<lambda>_. 0)\<rparr>)]"

definition node_complete :: device_node where
  "node_complete =
     node_without_reg @
     [(''reg'', \<lparr>prop_value = [0, 0, 0, 0, 4, 0, 0, 0], prop_after = (\<lambda>_. 0)\<rparr>)]"

definition kernel_ok :: "s32 \<Rightarrow> kernel" where
  "kernel_ok c =
     \<lparr>devm_kzalloc = True, mtd_device_parse_register = (\<lambda>_. 0), count_uninitialised = c\<rparr>"

section \<open>The four ways through the bridge\<close>

lemmas fw_simps = fixed_firmware_def linux_consts_def dispatch_def Let_def
  be64_to_cpu_def word_sless_alt emit_def store_retlen_def boot_state_def chip_def

lemma async_op_no_token:
  "opal_async_get_token_interruptible fw <s 0 \<Longrightarrow>
   powernv_flash_async_op k fw info op offset len retlen buf s =
     (- ENOMEM k,
      s\<lparr>trace := trace s @ [Dev_dbg,
           Opal_async_get_token_interruptible (opal_async_get_token_interruptible fw), Dev_err]\<rparr>)"
  by (simp add: powernv_flash_async_op_def Let_def emit_def)

lemma async_op_rejected:
  "token_acquired fw \<Longrightarrow> \<not> dispatch_accepted k fw info op offset len buf \<Longrightarrow>
   powernv_flash_async_op k fw info op offset len retlen buf s =
     (- EIO k,
      s\<lparr>trace := trace s @ [Dev_dbg,
           Opal_async_get_token_interruptible (opal_async_get_token_interruptible fw),
           snd (dispatch fw info op offset len buf (opal_async_get_token_interruptible fw)),
           Dev_err]\<rparr>)"
  by (simp add: powernv_flash_async_op_def Let_def emit_def token_acquired_def
      dispatch_accepted_def case_prod_beta)

lemma async_op_wait_failed:
  "token_acquired fw \<Longrightarrow> dispatch_accepted k fw info op offset len buf \<Longrightarrow>
   \<not> wait_succeeded fw \<Longrightarrow>
   powernv_flash_async_op k fw info op offset len retlen buf s =
     (- EIO k,
      s\<lparr>trace := trace s @ [Dev_dbg,
           Opal_async_get_token_interruptible (opal_async_get_token_interruptible fw),
           snd (dispatch fw info op offset len buf (opal_async_get_token_interruptible fw)),
           Opal_async_wait_response (opal_async_get_token_interruptible fw),
           Opal_async_release_token (opal_async_get_token_interruptible fw),
           Dev_err]\<rparr>)"
  by (simp add: powernv_flash_async_op_def Let_def emit_def token_acquired_def
      dispatch_accepted_def wait_succeeded_def case_prod_beta)

lemma async_op_completed:
  "token_acquired fw \<Longrightarrow> dispatch_accepted k fw info op offset len buf \<Longrightarrow>
   wait_succeeded fw \<Longrightarrow>
   powernv_flash_async_op k fw info op offset len retlen buf s =
     (0,
      (if completion_status fw = OPAL_SUCCESS k then store_retlen retlen len else (\<lambda>s. s))
      (s\<lparr>trace := trace s @ [Dev_dbg,
           Opal_async_get_token_interruptible (opal_async_get_token_interruptible fw),
           snd (dispatch fw info op offset len buf (opal_async_get_token_interruptible fw)),
           Opal_async_wait_response (opal_async_get_token_interruptible fw),
           Opal_async_release_token (opal_async_get_token_interruptible fw)]\<rparr>))"
  by (simp add: powernv_flash_async_op_def Let_def emit_def token_acquired_def
      dispatch_accepted_def wait_succeeded_def completion_status_def case_prod_beta)

lemma async_op_cases:
  obtains (no_token) "\<not> token_acquired fw"
  | (rejected) "token_acquired fw" "\<not> dispatch_accepted k fw info op offset len buf"
  | (wait_failed) "token_acquired fw" "dispatch_accepted k fw info op offset len buf"
      "\<not> wait_succeeded fw"
  | (completed) "token_acquired fw" "dispatch_accepted k fw info op offset len buf"
      "wait_succeeded fw"
  by blast

lemmas async_op_paths =
  async_op_no_token async_op_rejected async_op_wait_failed async_op_completed

text \<open>The bridge touches no erase request and notifies nobody.\<close>

lemma async_op_erase_mem:
  "erase_mem (snd (powernv_flash_async_op k fw info op offset len retlen buf s)) = erase_mem s"
  by (cases rule: async_op_cases [where fw=fw and k=k and info=info and op=op
        and offset=offset and len=len and buf=buf])
     (simp_all add: async_op_paths token_acquired_def store_retlen_def split: option.splits)

lemma async_op_erase_callbacks:
  "erase_callbacks p (snd (powernv_flash_async_op k fw info op offset len retlen buf s))
     = erase_callbacks p s"
  by (cases rule: async_op_cases [where fw=fw and k=k and info=info and op=op
        and offset=offset and len=len and buf=buf])
     (simp_all add: async_op_paths token_acquired_def store_retlen_def erase_callbacks_def
        dispatch_def split: option.splits flash_op.splits)

section \<open>Token lifecycle\<close>

text \<open>
  Once the firmware has accepted the call, the token is released exactly once, whether the
  wait succeeds or not (line 96).
\<close>

lemma async_op_accepted_one_release:
  "token_acquired fw \<Longrightarrow> dispatch_accepted k fw info op offset len buf \<Longrightarrow>
   releases (opal_async_get_token_interruptible fw)
     (snd (powernv_flash_async_op k fw info op offset len retlen buf s))
   = releases (opal_async_get_token_interruptible fw) s + 1"
  by (cases "wait_succeeded fw")
     (simp_all add: async_op_wait_failed async_op_completed releases_def dispatch_def
        store_retlen_def split: flash_op.splits option.splits)

text \<open>
  When the firmware rejects the call, lines 89-93 return before line 96: no release happens,
  for any token and any operation.
\<close>

lemma async_op_rejected_no_release:
  "token_acquired fw \<Longrightarrow> \<not> dispatch_accepted k fw info op offset len buf \<Longrightarrow>
   releases t (snd (powernv_flash_async_op k fw info op offset len retlen buf s)) = releases t s"
  by (simp add: async_op_rejected releases_def dispatch_def split: flash_op.splits)

text \<open>
  Claim C1 says that a token, once acquired, is released exactly once on every exit path of
  \<open>powernv_flash_async_op\<close>, the rejected dispatch included. The code at a rejected
  dispatch: an erase of 0x1000 bytes at 0x4000, token 3 granted, the firmware answering -1.
  The call returns \<open>-EIO\<close>; token 3 was acquired once and is not released.
\<close>

theorem async_op_dispatch_rejected_leaks_token:
  "fst (powernv_flash_async_op linux_consts (fixed_firmware 3 (- 1) 0 status_success) chip
          FLASH_OP_ERASE 0x4000 0x1000 None 0 boot_state) = - EIO linux_consts \<and>
   acquisitions 3 (snd (powernv_flash_async_op linux_consts
          (fixed_firmware 3 (- 1) 0 status_success) chip
          FLASH_OP_ERASE 0x4000 0x1000 None 0 boot_state)) = 1 \<and>
   releases 3 (snd (powernv_flash_async_op linux_consts
          (fixed_firmware 3 (- 1) 0 status_success) chip
          FLASH_OP_ERASE 0x4000 0x1000 None 0 boot_state)) = 0"
  by (simp add: powernv_flash_async_op_def fw_simps acquisitions_def releases_def)

section \<open>Return value and completion status\<close>

text \<open>
  Whenever the wait succeeds the bridge returns 0, whatever the status in the message: line
  108 stores \<open>-EIO\<close> in \<open>rc\<close>, line 111 returns the literal 0.
\<close>

lemma async_op_completed_returns_zero:
  "token_acquired fw \<Longrightarrow> dispatch_accepted k fw info op offset len buf \<Longrightarrow>
   wait_succeeded fw \<Longrightarrow>
   fst (powernv_flash_async_op k fw info op offset len retlen buf s) = 0"
  by (simp add: async_op_completed)

text \<open>
  Claim C2 says that a completion whose decoded status is not the success status makes
  \<open>powernv_flash_async_op\<close> return \<open>-EIO\<close>. The code at such a completion: a write of 64
  bytes at 0x2000, dispatch accepted, wait succeeded, status -6 in the message. The decoded
  status differs from \<open>OPAL_SUCCESS\<close>, and the call returns 0, which is not \<open>-EIO\<close>.
\<close>

theorem async_op_failed_status_returns_zero:
  "completion_status (fixed_firmware 3 (- 15) 0 status_hardware) = - 6 \<and>
   completion_status (fixed_firmware 3 (- 15) 0 status_hardware) \<noteq> OPAL_SUCCESS linux_consts \<and>
   fst (powernv_flash_async_op linux_consts (fixed_firmware 3 (- 15) 0 status_hardware) chip
          FLASH_OP_WRITE 0x2000 64 (Some 7) 0 boot_state) = 0 \<and>
   fst (powernv_flash_async_op linux_consts (fixed_firmware 3 (- 15) 0 status_hardware) chip
          FLASH_OP_WRITE 0x2000 64 (Some 7) 0 boot_state) \<noteq> - EIO linux_consts"
  by (simp add: powernv_flash_async_op_def fw_simps status_hardware_def completion_status_def)

section \<open>Token acquisition failure\<close>

text \<open>
  Claim C3 says that an interrupted token acquisition makes the bridge fail with an error
  kind of its own, distinct from the out-of-memory kind. The code at an interrupted
  acquisition (the primitive returns \<open>-ERESTARTSYS\<close>, -512): the call returns \<open>-ENOMEM\<close>,
  the very value it returns when the pool has no token to give (-16, \<open>-EBUSY\<close>).
\<close>

theorem async_op_interrupted_counterexample:
  "fst (powernv_flash_async_op linux_consts (fixed_firmware (- 512) (- 15) 0 status_success) chip
          FLASH_OP_READ 0x1000 256 (Some 7) 0 boot_state) = - ENOMEM linux_consts \<and>
   fst (powernv_flash_async_op linux_consts (fixed_firmware (- 512) (- 15) 0 status_success) chip
          FLASH_OP_READ 0x1000 256 (Some 7) 0 boot_state)
   = fst (powernv_flash_async_op linux_consts (fixed_firmware (- 16) (- 15) 0 status_success) chip
          FLASH_OP_READ 0x1000 256 (Some 7) 0 boot_state)"
  by (simp add: powernv_flash_async_op_def fw_simps)

text \<open>
  Claim C3 as amended: whenever the acquire primitive returns a negative value, an
  interruption included, \<open>powernv_flash_async_op\<close> returns \<open>-ENOMEM\<close> and does nothing
  but log: no firmware call, no wait, no release, no write to memory. No token is held.
\<close>

theorem async_op_token_failure:
  assumes "opal_async_get_token_interruptible fw <s 0"
  shows "powernv_flash_async_op k fw info op offset len retlen buf s =
     (- ENOMEM k,
      s\<lparr>trace := trace s @ [Dev_dbg,
           Opal_async_get_token_interruptible (opal_async_get_token_interruptible fw), Dev_err]\<rparr>)"
  using assms by (rule async_op_no_token)

text \<open>The amended claim C3 at the interrupted acquisition above.\<close>

theorem async_op_token_failure_witness:
  "opal_async_get_token_interruptible (fixed_firmware (- 512) (- 15) 0 status_success) <s 0 \<and>
   powernv_flash_async_op linux_consts (fixed_firmware (- 512) (- 15) 0 status_success) chip
          FLASH_OP_READ 0x1000 256 (Some 7) 0 boot_state
   = (- 12, boot_state\<lparr>trace := [Dev_dbg, Opal_async_get_token_interruptible (- 512), Dev_err]\<rparr>)"
proof -
  have h: "opal_async_get_token_interruptible (fixed_firmware (- 512) (- 15) 0 status_success) <s 0"
    by (simp add: fixed_firmware_def word_sless_alt)
  show ?thesis
    using h async_op_token_failure [OF h, where k=linux_consts and info=chip and op=FLASH_OP_READ
        and offset="0x1000" and len=256 and retlen="Some 7" and buf=0 and s=boot_state]
    by (simp add: fixed_firmware_def linux_consts_def boot_state_def)
qed

section \<open>Erase\<close>

text \<open>The bridge only appends to the trace.\<close>

lemma async_op_trace:
  "trace (snd (powernv_flash_async_op k fw info op offset len retlen buf s))
     = trace s @ new_events s (snd (powernv_flash_async_op k fw info op offset len retlen buf s))"
  by (cases rule: async_op_cases [where fw=fw and k=k and info=info and op=op
        and offset=offset and len=len and buf=buf])
     (simp_all add: async_op_paths token_acquired_def store_retlen_def new_events_def
        split: option.splits)

text \<open>
  Claim C4: \<open>powernv_flash_erase\<close> first sets the request state to \<open>ERASING\<close>, then runs
  the bridge with operation erase, the request's address and length, no \<open>retlen\<close> and no
  buffer. If the bridge returns a failure the request ends \<open>FAILED\<close> with \<open>fail_addr\<close>
  equal to \<open>addr\<close>; if it returns success the request ends \<open>DONE\<close>. In both cases the
  erase-completion notification is the last thing that happens, exactly once, and it sees the
  final request. Here \<open>e0\<close> is the request before the call, \<open>b\<close> the result of the
  bridge and \<open>e'\<close> the request after the call. The trace of the call is, in this order:
  the assignment of \<open>ERASING\<close>, the events of the bridge, the assignments of lines 162-165,
  the notification.
\<close>

theorem powernv_flash_erase_outcome:
  "let e0 = erase_mem s erase;
       s1 = erase_begin erase s;
       b = powernv_flash_async_op k fw info FLASH_OP_ERASE (ei_addr e0) (ei_len e0) None 0 s1;
       s' = snd (powernv_flash_erase k fw info erase s);
       e' = erase_mem s' erase
   in trace s' =
        trace s @ [Erase_info_write erase (e0\<lparr>ei_state := MTD_ERASING\<rparr>)] @
        new_events s1 (snd b) @
        (if fst b \<noteq> 0
         then [Erase_info_write erase (e0\<lparr>ei_fail_addr := ei_addr e0, ei_state := MTD_ERASING\<rparr>),
               Erase_info_write erase e']
         else [Erase_info_write erase e']) @
        [Mtd_erase_callback erase e'] \<and>
      ei_state (erase_mem s1 erase) = MTD_ERASING \<and>
      (fst b \<noteq> 0 \<longrightarrow> ei_state e' = MTD_ERASE_FAILED \<and> ei_fail_addr e' = ei_addr e0) \<and>
      (fst b = 0 \<longrightarrow> ei_state e' = MTD_ERASE_DONE \<and> ei_fail_addr e' = ei_fail_addr e0) \<and>
      ei_addr e' = ei_addr e0 \<and> ei_len e' = ei_len e0 \<and>
      erase_callbacks erase s' = erase_callbacks erase s + 1"
proof -
  define e0 where "e0 = erase_mem s erase"
  define s1 where "s1 = erase_begin erase s"
  define b where "b = powernv_flash_async_op k fw info FLASH_OP_ERASE
             (ei_addr e0) (ei_len e0) None 0 s1"
  have m1: "erase_mem s1 erase = e0\<lparr>ei_state := MTD_ERASING\<rparr>"
    and tr: "trace s1 = trace s @ [Erase_info_write erase (e0\<lparr>ei_state := MTD_ERASING\<rparr>)]"
    by (simp_all add: s1_def e0_def erase_begin_def write_erase_info_def emit_def)
  have e: "powernv_flash_erase k fw info erase s = erase_finish erase (fst b) (snd b)"
    by (simp add: powernv_flash_erase_def Let_def case_prod_beta b_def s1_def [symmetric] m1)
  have m: "erase_mem (snd b) = erase_mem s1"
    unfolding b_def by (rule async_op_erase_mem)
  have tb: "trace (snd b) = trace s1 @ new_events s1 (snd b)"
    unfolding b_def by (rule async_op_trace)
  have "erase_callbacks erase s1 = erase_callbacks erase s"
    by (simp add: erase_callbacks_def tr)
  then have c: "erase_callbacks erase (snd b) = erase_callbacks erase s"
    unfolding b_def by (simp add: async_op_erase_callbacks)
  have t: "trace (snd (erase_finish erase (fst b) (snd b))) =
        trace (snd b) @
        (if fst b \<noteq> 0
         then [Erase_info_write erase (e0\<lparr>ei_fail_addr := ei_addr e0, ei_state := MTD_ERASING\<rparr>),
               Erase_info_write erase (erase_mem (snd (erase_finish erase (fst b) (snd b))) erase)]
         else [Erase_info_write erase (erase_mem (snd (erase_finish erase (fst b) (snd b))) erase)]) @
        [Mtd_erase_callback erase (erase_mem (snd (erase_finish erase (fst b) (snd b))) erase)]"
    by (simp add: erase_finish_def Let_def write_erase_info_def emit_def m m1)
  have f: "erase_mem (snd (erase_finish erase (fst b) (snd b))) erase =
        (if fst b \<noteq> 0 then e0\<lparr>ei_fail_addr := ei_addr e0, ei_state := MTD_ERASE_FAILED\<rparr>
         else e0\<lparr>ei_state := MTD_ERASE_DONE\<rparr>)"
    by (simp add: erase_finish_def Let_def write_erase_info_def emit_def m m1)
  have n: "erase_callbacks erase (snd (erase_finish erase (fst b) (snd b)))
        = erase_callbacks erase (snd b) + 1"
    by (simp add: erase_finish_def Let_def write_erase_info_def emit_def erase_callbacks_def)
  show ?thesis
    unfolding Let_def e0_def [symmetric] s1_def [symmetric] b_def [symmetric] e
    using t [unfolded tb tr] f n c m1 by (cases "fst b = 0") simp_all
qed

text \<open>
  Claim C4 on two erase requests of 0x1000 bytes at 0x4000: one whose dispatch the firmware
  rejects (the bridge returns \<open>-EIO\<close>), one that completes with the success status. The
  assignment of \<open>ERASING\<close> precedes the firmware call in both traces.
\<close>

theorem powernv_flash_erase_outcome_witness:
  "trace (snd (powernv_flash_erase linux_consts
       (fixed_firmware 3 (- 1) 0 status_success) chip 5 boot_state)) =
     [Erase_info_write 5 \<lparr>ei_addr = 0x4000, ei_len = 0x1000, ei_fail_addr = 0,
                            ei_state = MTD_ERASING\<rparr>,
      Dev_dbg, Opal_async_get_token_interruptible 3, Opal_flash_erase 1 0x4000 0x1000 3,
      Dev_err,
      Erase_info_write 5 \<lparr>ei_addr = 0x4000, ei_len = 0x1000, ei_fail_addr = 0x4000,
                            ei_state = MTD_ERASING\<rparr>,
      Erase_info_write 5 \<lparr>ei_addr = 0x4000, ei_len = 0x1000, ei_fail_addr = 0x4000,
                            ei_state = MTD_ERASE_FAILED\<rparr>,
      Mtd_erase_callback 5 \<lparr>ei_addr = 0x4000, ei_len = 0x1000, ei_fail_addr = 0x4000,
                              ei_state = MTD_ERASE_FAILED\<rparr>] \<and>
   ei_state (erase_mem (snd (powernv_flash_erase linux_consts
       (fixed_firmware 3 (- 1) 0 status_success) chip 5 boot_state)) 5) = MTD_ERASE_FAILED \<and>
   ei_fail_addr (erase_mem (snd (powernv_flash_erase linux_consts
       (fixed_firmware 3 (- 1) 0 status_success) chip 5 boot_state)) 5) = 0x4000 \<and>
   erase_callbacks 5 (snd (powernv_flash_erase linux_consts
       (fixed_firmware 3 (- 1) 0 status_success) chip 5 boot_state)) = 1 \<and>
   trace (snd (powernv_flash_erase linux_consts
       (fixed_firmware 3 (- 15) 0 status_success) chip 5 boot_state)) =
     [Erase_info_write 5 \<lparr>ei_addr = 0x4000, ei_len = 0x1000, ei_fail_addr = 0,
                            ei_state = MTD_ERASING\<rparr>,
      Dev_dbg, Opal_async_get_token_interruptible 3, Opal_flash_erase 1 0x4000 0x1000 3,
      Opal_async_wait_response 3, Opal_async_release_token 3,
      Erase_info_write 5 \<lparr>ei_addr = 0x4000, ei_len = 0x1000, ei_fail_addr = 0,
                            ei_state = MTD_ERASE_DONE\<rparr>,
      Mtd_erase_callback 5 \<lparr>ei_addr = 0x4000, ei_len = 0x1000, ei_fail_addr = 0,
                              ei_state = MTD_ERASE_DONE\<rparr>] \<and>
   ei_state (erase_mem (snd (powernv_flash_erase linux_consts
       (fixed_firmware 3 (- 15) 0 status_success) chip 5 boot_state)) 5) = MTD_ERASE_DONE \<and>
   erase_callbacks 5 (snd (powernv_flash_erase linux_consts
       (fixed_firmware 3 (- 15) 0 status_success) chip 5 boot_state)) = 1"
  using powernv_flash_erase_outcome [of boot_state 5 linux_consts
          "fixed_firmware 3 (- 1) 0 status_success" chip]
        powernv_flash_erase_outcome [of boot_state 5 linux_consts
          "fixed_firmware 3 (- 15) 0 status_success" chip]
  by (simp add: powernv_flash_async_op_def fw_simps erase_begin_def write_erase_info_def
        erase_callbacks_def new_events_def status_success_def)

text \<open>
  Claim C5: whatever the bridge did, \<open>powernv_flash_erase\<close> returns 0 (line 168); the
  outcome travels only through the request state and the notification.
\<close>

theorem powernv_flash_erase_returns_zero:
  "fst (powernv_flash_erase k fw info erase s) = 0"
  by (simp add: powernv_flash_erase_def erase_finish_def Let_def case_prod_beta)

text \<open>Claim C5 on the erase request whose dispatch the firmware rejects.\<close>

theorem powernv_flash_erase_returns_zero_witness:
  "fst (powernv_flash_erase linux_consts (fixed_firmware 3 (- 1) 0 status_success) chip 5
          boot_state) = 0 \<and>
   ei_state (erase_mem (snd (powernv_flash_erase linux_consts
       (fixed_firmware 3 (- 1) 0 status_success) chip 5 boot_state)) 5) = MTD_ERASE_FAILED"
  using powernv_flash_erase_returns_zero [of linux_consts
          "fixed_firmware 3 (- 1) 0 status_success" chip 5 boot_state]
  by (simp add: powernv_flash_erase_def powernv_flash_async_op_def fw_simps erase_begin_def
        erase_finish_def write_erase_info_def)

section \<open>The \<open>retlen\<close> out-parameter\<close>

text \<open>
  Claim C6: with a non-null \<open>retlen\<close>, when the call reaches a completion whose decoded
  status is the success status, \<open>powernv_flash_async_op\<close> returns 0 and \<open>*retlen\<close> holds
  the requested length.
\<close>

theorem async_op_success_sets_retlen:
  assumes "reaches_success_branch k fw info op offset len buf"
  shows "fst (powernv_flash_async_op k fw info op offset len (Some p) buf s) = 0 \<and>
         size_mem (snd (powernv_flash_async_op k fw info op offset len (Some p) buf s)) p = len"
  using assms
  by (simp add: reaches_success_branch_def async_op_completed store_retlen_def)

text \<open>Claim C6 on a read of 256 bytes at 0x1000 that the firmware completes with success.\<close>

theorem async_op_success_sets_retlen_witness:
  "reaches_success_branch linux_consts (fixed_firmware 3 (- 15) 0 status_success) chip
     FLASH_OP_READ 0x1000 256 0 \<and>
   fst (powernv_flash_async_op linux_consts (fixed_firmware 3 (- 15) 0 status_success) chip
          FLASH_OP_READ 0x1000 256 (Some 7) 0 boot_state) = 0 \<and>
   size_mem (snd (powernv_flash_async_op linux_consts (fixed_firmware 3 (- 15) 0 status_success)
          chip FLASH_OP_READ 0x1000 256 (Some 7) 0 boot_state)) 7 = 256"
proof -
  have h: "reaches_success_branch linux_consts (fixed_firmware 3 (- 15) 0 status_success) chip
     FLASH_OP_READ 0x1000 256 0"
    by (simp add: reaches_success_branch_def token_acquired_def dispatch_accepted_def
          wait_succeeded_def completion_status_def fw_simps status_success_def)
  show ?thesis
    using h async_op_success_sets_retlen [OF h, where p=7 and s=boot_state] by simp
qed

text \<open>
  Claim C7: on every path that does not reach the success-status branch (no token, dispatch
  rejected, wait failed, or a status other than success) the store of \<open>size_t\<close> objects is
  as before the call; in particular \<open>*retlen\<close> is unchanged.
\<close>

theorem async_op_failure_keeps_retlen:
  assumes "\<not> reaches_success_branch k fw info op offset len buf"
  shows "size_mem (snd (powernv_flash_async_op k fw info op offset len retlen buf s)) = size_mem s"
  using assms
  by (cases rule: async_op_cases [where fw=fw and k=k and info=info and op=op
        and offset=offset and len=len and buf=buf])
     (simp_all add: async_op_paths token_acquired_def reaches_success_branch_def)

text \<open>
  Claim C7 on the write that the firmware completes with status -6, and on a read for which
  no token is granted: the cell \<open>retlen\<close> points at keeps its value.
\<close>

theorem async_op_failure_keeps_retlen_witness:
  "\<not> reaches_success_branch linux_consts (fixed_firmware 3 (- 15) 0 status_hardware) chip
       FLASH_OP_WRITE 0x2000 64 0 \<and>
   size_mem (snd (powernv_flash_async_op linux_consts (fixed_firmware 3 (- 15) 0 status_hardware)
          chip FLASH_OP_WRITE 0x2000 64 (Some 7) 0 boot_state)) 7 = size_mem boot_state 7 \<and>
   \<not> reaches_success_branch linux_consts (fixed_firmware (- 512) (- 15) 0 status_success) chip
       FLASH_OP_READ 0x1000 256 0 \<and>
   size_mem (snd (powernv_flash_async_op linux_consts
          (fixed_firmware (- 512) (- 15) 0 status_success)
          chip FLASH_OP_READ 0x1000 256 (Some 7) 0 boot_state)) 7 = size_mem boot_state 7"
proof -
  have h: "\<not> reaches_success_branch linux_consts (fixed_firmware 3 (- 15) 0 status_hardware) chip
       FLASH_OP_WRITE 0x2000 64 0"
    by (simp add: reaches_success_branch_def token_acquired_def dispatch_accepted_def
          wait_succeeded_def completion_status_def fw_simps status_hardware_def)
  have g: "\<not> reaches_success_branch linux_consts
       (fixed_firmware (- 512) (- 15) 0 status_success) chip FLASH_OP_READ 0x1000 256 0"
    by (simp add: reaches_success_branch_def token_acquired_def fixed_firmware_def
          word_sless_alt)
  show ?thesis
    using h g
      async_op_failure_keeps_retlen [OF h, where retlen="Some 7" and s=boot_state]
      async_op_failure_keeps_retlen [OF g, where retlen="Some 7" and s=boot_state]
    by simp
qed

text \<open>
  Claim C10: with \<open>retlen = NULL\<close> the bridge writes to no \<open>size_t\<close> object, on any path
  and for any operation; \<open>powernv_flash_erase\<close> is the bridge called with
  \<open>retlen = NULL\<close> and \<open>buf = NULL\<close> followed by lines 161-168, and it leaves the store of
  \<open>size_t\<close> objects as it was.
\<close>

theorem async_op_null_retlen:
  "size_mem (snd (powernv_flash_async_op k fw info op offset len None buf s)) = size_mem s \<and>
   size_mem (snd (powernv_flash_erase k fw info erase s)) = size_mem s \<and>
   powernv_flash_erase k fw info erase s =
     erase_finish erase
       (fst (powernv_flash_async_op k fw info FLASH_OP_ERASE (ei_addr (erase_mem s erase))
               (ei_len (erase_mem s erase)) None 0 (erase_begin erase s)))
       (snd (powernv_flash_async_op k fw info FLASH_OP_ERASE (ei_addr (erase_mem s erase))
               (ei_len (erase_mem s erase)) None 0 (erase_begin erase s)))"
proof -
  have n: "size_mem (snd (powernv_flash_async_op k fw info op offset len None buf s)) = size_mem s"
    for op offset len buf s
    by (cases rule: async_op_cases [where fw=fw and k=k and info=info and op=op
          and offset=offset and len=len and buf=buf])
       (simp_all add: async_op_paths token_acquired_def store_retlen_def)
  have e: "powernv_flash_erase k fw info erase s =
     erase_finish erase
       (fst (powernv_flash_async_op k fw info FLASH_OP_ERASE (ei_addr (erase_mem s erase))
               (ei_len (erase_mem s erase)) None 0 (erase_begin erase s)))
       (snd (powernv_flash_async_op k fw info FLASH_OP_ERASE (ei_addr (erase_mem s erase))
               (ei_len (erase_mem s erase)) None 0 (erase_begin erase s)))"
    by (simp add: powernv_flash_erase_def Let_def case_prod_beta erase_begin_def
          write_erase_info_def emit_def)
  have "size_mem (snd (powernv_flash_erase k fw info erase s)) = size_mem s"
    unfolding e
    by (simp add: erase_finish_def Let_def emit_def n erase_begin_def write_erase_info_def)
  with n e show ?thesis by blast
qed

text \<open>
  Claim C10 on an erase that completes: the store is untouched, and the firmware call in the
  trace is the erase call, which carries no buffer address.
\<close>

theorem async_op_null_retlen_witness:
  "size_mem (snd (powernv_flash_erase linux_consts (fixed_firmware 3 (- 15) 0 status_success)
      chip 5 boot_state)) = size_mem boot_state \<and>
   trace (snd (powernv_flash_erase linux_consts (fixed_firmware 3 (- 15) 0 status_success)
      chip 5 boot_state)) =
     [Erase_info_write 5 \<lparr>ei_addr = 0x4000, ei_len = 0x1000, ei_fail_addr = 0,
                            ei_state = MTD_ERASING\<rparr>,
      Dev_dbg, Opal_async_get_token_interruptible 3, Opal_flash_erase 1 0x4000 0x1000 3,
      Opal_async_wait_response 3, Opal_async_release_token 3,
      Erase_info_write 5 \<lparr>ei_addr = 0x4000, ei_len = 0x1000, ei_fail_addr = 0,
                            ei_state = MTD_ERASE_DONE\<rparr>,
      Mtd_erase_callback 5 \<lparr>ei_addr = 0x4000, ei_len = 0x1000, ei_fail_addr = 0,
                              ei_state = MTD_ERASE_DONE\<rparr>]"
  using async_op_null_retlen [of linux_consts "fixed_firmware 3 (- 15) 0 status_success" chip
          FLASH_OP_ERASE 0 0 0 boot_state 5]
  by (simp add: powernv_flash_async_op_def fw_simps erase_begin_def erase_finish_def
        write_erase_info_def status_success_def)

section \<open>The values the bridge returns\<close>

lemma async_op_return_in:
  "fst (powernv_flash_async_op k fw info op offset len retlen buf s) \<in> {0, - ENOMEM k, - EIO k}"
  by (cases rule: async_op_cases [where fw=fw and k=k and info=info and op=op
        and offset=offset and len=len and buf=buf])
     (simp_all add: async_op_paths token_acquired_def)

lemma fixed_firmware_fst:
  "fst (powernv_flash_async_op k (fixed_firmware (- 1) rc w st) info op offset len retlen buf s)
     = - ENOMEM k"
  "fst (powernv_flash_async_op k (fixed_firmware 0 (OPAL_ASYNC_COMPLETION k + 1) w st) info op
     offset len retlen buf s) = - EIO k"
  "fst (powernv_flash_async_op k (fixed_firmware 0 (OPAL_ASYNC_COMPLETION k) 0 st) info op
     offset len retlen buf s) = 0"
  by (simp_all add: powernv_flash_async_op_def fixed_firmware_def dispatch_def Let_def
       word_sless_alt split: flash_op.splits)

lemma async_op_return_reached:
  assumes "r \<in> {0, - ENOMEM k, - EIO k}"
  shows "\<exists>fw. \<forall>info op offset len retlen buf s.
           fst (powernv_flash_async_op k fw info op offset len retlen buf s) = r"
proof -
  consider "r = 0" | "r = - ENOMEM k" | "r = - EIO k"
    using assms by blast
  then show ?thesis
  proof cases
    case 1
    then show ?thesis
      by (intro exI [of _ "fixed_firmware 0 (OPAL_ASYNC_COMPLETION k) 0 []"])
         (simp add: fixed_firmware_fst)
  next
    case 2
    then show ?thesis
      by (intro exI [of _ "fixed_firmware (- 1) 0 0 []"]) (simp add: fixed_firmware_fst)
  next
    case 3
    then show ?thesis
      by (intro exI [of _ "fixed_firmware 0 (OPAL_ASYNC_COMPLETION k + 1) 0 []"])
         (simp add: fixed_firmware_fst)
  qed
qed

text \<open>
  Claim C9: the values \<open>powernv_flash_async_op\<close> can return, over all answers of the
  firmware and all arguments, are exactly 0, \<open>-ENOMEM\<close> and \<open>-EIO\<close>, and the same holds
  for \<open>powernv_flash_read\<close> and \<open>powernv_flash_write\<close>. Neither the firmware's return
  code nor the status of the message is ever the return value.
\<close>

theorem async_op_return_values:
  "{r. \<exists>fw info op offset len retlen buf s.
         fst (powernv_flash_async_op k fw info op offset len retlen buf s) = r}
     = {0, - ENOMEM k, - EIO k} \<and>
   {r. \<exists>fw info from len retlen buf s.
         fst (powernv_flash_read k fw info from len retlen buf s) = r}
     = {0, - ENOMEM k, - EIO k} \<and>
   {r. \<exists>fw info to len retlen buf s.
         fst (powernv_flash_write k fw info to len retlen buf s) = r}
     = {0, - ENOMEM k, - EIO k}"
proof (intro conjI)
  show "{r. \<exists>fw info op offset len retlen buf s.
         fst (powernv_flash_async_op k fw info op offset len retlen buf s) = r}
     = {0, - ENOMEM k, - EIO k}" (is "?A = ?R")
  proof
    show "?A \<subseteq> ?R" using async_op_return_in by blast
    show "?R \<subseteq> ?A"
    proof
      fix r assume "r \<in> ?R"
      from async_op_return_reached [OF this] show "r \<in> ?A" by blast
    qed
  qed
next
  show "{r. \<exists>fw info from len retlen buf s.
         fst (powernv_flash_read k fw info from len retlen buf s) = r}
     = {0, - ENOMEM k, - EIO k}" (is "?A = ?R")
  proof
    show "?A \<subseteq> ?R" unfolding powernv_flash_read_def using async_op_return_in by blast
    show "?R \<subseteq> ?A"
    proof
      fix r assume "r \<in> ?R"
      from async_op_return_reached [OF this] show "r \<in> ?A"
        unfolding powernv_flash_read_def by blast
    qed
  qed
next
  show "{r. \<exists>fw info to len retlen buf s.
         fst (powernv_flash_write k fw info to len retlen buf s) = r}
     = {0, - ENOMEM k, - EIO k}" (is "?A = ?R")
  proof
    show "?A \<subseteq> ?R" unfolding powernv_flash_write_def using async_op_return_in by blast
    show "?R \<subseteq> ?A"
    proof
      fix r assume "r \<in> ?R"
      from async_op_return_reached [OF this] show "r \<in> ?A"
        unfolding powernv_flash_write_def by blast
    qed
  qed
qed

text \<open>Claim C9 with the constants of the kernel tree: the values are 0, -12 and -5.\<close>

theorem async_op_return_values_witness:
  "{r. \<exists>fw info op offset len retlen buf s.
         fst (powernv_flash_async_op linux_consts fw info op offset len retlen buf s) = r}
     = {0, - 12, - 5}"
  using async_op_return_values [of linux_consts] by (simp add: linux_consts_def)

section \<open>Probe\<close>

lemma read_cells_numeral:
  "read_cells p i (numeral n) r = read_cells p i (Suc (pred_numeral n)) r"
  by (simp add: numeral_eq_Suc)

text \<open>
  \<open>of_read_number\<close> on a value of two bytes, asked for one cell: the two bytes of the
  value and the two bytes behind it.
\<close>

lemma of_read_number_short_value:
  "of_read_number (Some \<lparr>prop_value = [0, 1], prop_after = (\<lambda>_. 0xFF)\<rparr>) 1 = Inr 0x1FFFF"
  by (simp add: of_read_number_def byte_at_def be32_to_cpu_def)

text \<open>A node with all three properties is registered with its geometry filled in.\<close>

lemma probe_complete_node:
  "powernv_flash_probe linux_consts (kernel_ok 0) node_complete boot_state
     = Inr (0, boot_state\<lparr>trace := [Mtd_device_parse_register
         \<lparr>mtd = \<lparr>mtd_name = None, mtd_type = 4, mtd_flags = 0x400, mtd_size = 0x4000000,
                 mtd_erasesize = 0x10000, mtd_writesize = 1, mtd_writebufsize = 1,
                 mtd_erase = Some Powernv_flash_erase, mtd_read = Some Powernv_flash_read,
                 mtd_write = Some Powernv_flash_write\<rparr>,
          flash_id = 1\<rparr>]\<rparr>)"
  by (simp add: powernv_flash_probe_def powernv_flash_set_driver_info_def of_get_property_def
        node_without_reg_def node_complete_def kernel_ok_def of_read_number_def be32_to_cpu_def
        byte_at_def Let_def read_cells_numeral kzalloc_powernv_flash_def linux_consts_def emit_def
        boot_state_def)

text \<open>
  The two lookups whose result pointer is tested (lines 235 and 184): a missing
  \<open>ibm,opal-id\<close> or \<open>ibm,flash-block-size\<close> ends probe with \<open>-EIO\<close> and without a
  registration.
\<close>

lemma probe_missing_opal_id:
  assumes "devm_kzalloc kn" and "of_get_property node ''ibm,opal-id'' = None"
  shows "powernv_flash_probe k kn node s = Inr (- EIO k, emit Dev_err s)"
  using assms by (simp add: powernv_flash_probe_def Let_def)

lemma probe_missing_block_size:
  assumes "devm_kzalloc kn" and "of_get_property node ''ibm,opal-id'' = Some p"
    and "of_get_property node ''ibm,flash-block-size'' = None"
  shows "powernv_flash_probe k kn node s = Inr (- EIO k, emit Dev_err s)"
  using assms
  by (simp add: powernv_flash_probe_def powernv_flash_set_driver_info_def Let_def
        of_read_number_def)

lemma emit_Dev_err_registered:
  "registered (emit Dev_err s) = registered s"
  by (simp add: registered_def emit_def)

text \<open>
  The \<open>reg\<close> lookup is tested only through \<open>count\<close> (line 190). With \<open>reg\<close> absent,
  \<open>count\<close> is whatever the stack slot held: probe returns \<open>-EIO\<close> when that value
  divided by 4 is not 2, and reads through the null pointer (line 201) when it is.
\<close>

lemma probe_missing_reg:
  assumes "devm_kzalloc kn" and "of_get_property node ''ibm,opal-id'' = Some p"
    and "of_get_property node ''ibm,flash-block-size'' = Some b"
    and "of_get_property node ''reg'' = None"
  shows "powernv_flash_probe k kn node s =
     (if (scast (count_uninitialised kn) :: u64) div 4 \<noteq> 2
      then Inr (- EIO k, emit Dev_err s) else Inl Null_dereference)"
  using assms
  by (simp add: powernv_flash_probe_def powernv_flash_set_driver_info_def Let_def
        of_read_number_def)

text \<open>
  Claim C8 says that probe returns an error, and registers nothing, whenever the device
  identifier, the erase-block size or a two-cell \<open>reg\<close> is missing. The code at a node
  that has \<open>ibm,opal-id\<close> and \<open>ibm,flash-block-size\<close> but no \<open>reg\<close>, with the
  uninitialised \<open>count\<close> holding 8: the check of line 190 passes and line 201 reads through
  the null pointer \<open>reg\<close>; probe does not return an error.
\<close>

theorem probe_missing_reg_faults:
  "of_get_property node_without_reg ''reg'' = None \<and>
   powernv_flash_probe linux_consts (kernel_ok 8) node_without_reg boot_state
     = Inl Null_dereference"
  by (simp add: powernv_flash_probe_def powernv_flash_set_driver_info_def of_get_property_def
        node_without_reg_def kernel_ok_def of_read_number_def be32_to_cpu_def byte_at_def
        Let_def kzalloc_powernv_flash_def)

end
